theory Spec2Isabelle
  imports Complex_Main
begin

section \<open>Bytes, strings and runes\<close>

text \<open>
  A Go \<open>string\<close> is a sequence of bytes; it is modelled as a HOL \<open>string\<close> (a list of
  \<open>char\<close>, each one byte).  A byte is read as a number with \<open>of_char\<close>.  A Go \<open>rune\<close>
  (an \<open>int32\<close> code point) is an \<open>int\<close>; Go's \<open>int\<close> is an \<open>int\<close> as well, and the
  64-bit range is written out where a function depends on it.
\<close>

abbreviation byte :: "char \<Rightarrow> nat" where
  "byte c \<equiv> of_char c"

definition RuneError :: int where
  "RuneError = 0xFFFD"

definition RuneSelf :: nat where
  "RuneSelf = 0x80"

text \<open>
  \<open>utf8.DecodeRuneInString\<close> of the Go library (not part of the repository), following its
  source: the first byte selects the length of the sequence and the range accepted for the
  second byte; every malformed or truncated sequence is \<open>(RuneError, 1)\<close>, the empty string
  is \<open>(RuneError, 0)\<close>.  The masks \<open>&0x1F\<close>, \<open>&0x0F\<close>, \<open>&0x07\<close>, \<open>&0x3F\<close> are \<open>mod\<close>, the
  shifts are multiplications.
\<close>

definition locb :: nat where "locb = 0x80"
definition hicb :: nat where "hicb = 0xBF"


definition acceptLo :: "nat \<Rightarrow> nat" where
  "acceptLo s0 = (if s0 = 0xE0 then 0xA0 else if s0 = 0xF0 then 0x90 else locb)"

definition acceptHi :: "nat \<Rightarrow> nat" where
  "acceptHi s0 = (if s0 = 0xED then 0x9F else if s0 = 0xF4 then 0x8F else hicb)"

definition seqLen :: "nat \<Rightarrow> nat" where
  "seqLen s0 = (if s0 < 0xE0 then 2 else if s0 < 0xF0 then 3 else 4)"

fun DecodeRuneInString :: "string \<Rightarrow> int \<times> nat" where
  "DecodeRuneInString [] = (RuneError, 0)"
| "DecodeRuneInString (c0 # cs) =
     (let s0 = byte c0 in
      if s0 < RuneSelf then (int s0, 1)
      else if s0 < 0xC2 \<or> 0xF4 < s0 then (RuneError, 1)
      else if length (c0 # cs) < seqLen s0 then (RuneError, 1)
      else let s1 = byte (cs ! 0) in
      if s1 < acceptLo s0 \<or> acceptHi s0 < s1 then (RuneError, 1)
      else if seqLen s0 \<le> 2 then (int ((s0 mod 32) * 64 + s1 mod 64), 2)
      else let s2 = byte (cs ! 1) in
      if s2 < locb \<or> hicb < s2 then (RuneError, 1)
      else if seqLen s0 \<le> 3 then (int ((s0 mod 16) * 4096 + (s1 mod 64) * 64 + s2 mod 64), 3)
      else let s3 = byte (cs ! 2) in
      if s3 < locb \<or> hicb < s3 then (RuneError, 1)
      else (int ((s0 mod 8) * 262144 + (s1 mod 64) * 4096 + (s2 mod 64) * 64 + s3 mod 64), 4))"

lemma DecodeRuneInString_size: "cs \<noteq> [] \<Longrightarrow> 1 \<le> snd (DecodeRuneInString cs)"
  by (cases cs) (simp_all add: Let_def)

lemma DecodeRuneInString_le: "snd (DecodeRuneInString cs) \<le> length cs"
proof (cases cs)
  case Nil
  then show ?thesis by simp
next
  case (Cons c0 cs')
  have "seqLen (byte c0) = 2 \<or> seqLen (byte c0) = 3 \<or> seqLen (byte c0) = 4"
    by (simp add: seqLen_def)
  then consider "seqLen (byte c0) = 2" | "seqLen (byte c0) = 3" | "seqLen (byte c0) = 4"
    by blast
  then show ?thesis
  proof cases
    case 1
    then show ?thesis unfolding Cons by (simp add: Let_def Suc_le_eq)
  next
    case 2
    then show ?thesis unfolding Cons by (simp add: Let_def Suc_le_eq)
  next
    case 3
    then show ?thesis unfolding Cons by (simp add: Let_def Suc_le_eq)
  qed
qed

declare DecodeRuneInString.simps(2) [simp del]

text \<open>
  \<open>fmt.Fprintf(w, "%d", i)\<close>: the decimal digits of \<open>i\<close>, with a minus sign when negative.
\<close>

definition digit :: "nat \<Rightarrow> char" where
  "digit d = ''0123456789'' ! d"

fun digits :: "nat \<Rightarrow> string" where
  "digits n = (if n < 10 then [digit n] else digits (n div 10) @ [digit (n mod 10)])"

declare digits.simps [simp del]

definition fmt_d :: "int \<Rightarrow> string" where
  "fmt_d i = (if i < 0 then CHR ''-'' # digits (nat (- i)) else digits (nat i))"

section \<open>Library functions the decoders call\<close>

text \<open>
  \<open>utf8.AppendRune\<close>, behind \<open>strings.Builder.WriteRune\<close>: the UTF-8 encoding of a rune; a
  rune that is negative, beyond 0x10FFFF or a surrogate is encoded as \<open>RuneError\<close>.
\<close>

definition EncodeRune :: "int \<Rightarrow> string" where
  "EncodeRune rn =
     (if 0 \<le> rn \<and> rn \<le> 0x7F then [char_of (nat rn)]
      else if 0 \<le> rn \<and> rn \<le> 0x7FF then
        [char_of (0xC0 + nat rn div 64), char_of (0x80 + nat rn mod 64)]
      else let q = (if rn < 0 \<or> 0x10FFFF < rn \<or> (0xD800 \<le> rn \<and> rn \<le> 0xDFFF)
                    then nat RuneError else nat rn)
      in if q \<le> 0xFFFF then
           [char_of (0xE0 + q div 4096), char_of (0x80 + (q div 64) mod 64),
            char_of (0x80 + q mod 64)]
         else
           [char_of (0xF0 + q div 262144), char_of (0x80 + (q div 4096) mod 64),
            char_of (0x80 + (q div 64) mod 64), char_of (0x80 + q mod 64)])"

text \<open>
  \<open>unicode.IsSpace\<close>: in Latin-1 the runes \<open>\t \n \v \f \r\<close>, space, U+0085 and U+00A0;
  beyond, the runes of the Unicode property White_Space.
\<close>

definition IsSpace :: "int \<Rightarrow> bool" where
  "IsSpace rn \<longleftrightarrow>
     rn \<in> {0x09, 0x0A, 0x0B, 0x0C, 0x0D, 0x20, 0x85, 0xA0, 0x1680, 0x2028, 0x2029, 0x202F,
            0x205F, 0x3000}
     \<or> (0x2000 \<le> rn \<and> rn \<le> 0x200A)"

text \<open>
  The digits of \<open>strconv\<close>: \<open>digitVal base c\<close> is the value of the byte \<open>c\<close> as a digit
  of the base, if it is one (letters in either case); \<open>parseDigits\<close> reads a non-empty
  string of digits.
\<close>

definition digitVal :: "nat \<Rightarrow> char \<Rightarrow> nat option" where
  "digitVal base c =
     (let b = byte c;
          d = (if 0x30 \<le> b \<and> b \<le> 0x39 then b - 0x30
               else if 0x61 \<le> b \<and> b \<le> 0x7A then b - 0x61 + 10
               else if 0x41 \<le> b \<and> b \<le> 0x5A then b - 0x41 + 10
               else 36)
      in if d < base then Some d else None)"

fun parseDigits :: "nat \<Rightarrow> nat \<Rightarrow> string \<Rightarrow> nat option" where
  "parseDigits base acc [] = Some acc"
| "parseDigits base acc (c # cs) =
     (case digitVal base c of
        None \<Rightarrow> None
      | Some d \<Rightarrow> parseDigits base (acc * base + d) cs)"

text \<open>
  \<open>strconv.ParseInt(s, base, bitSize)\<close> for an explicit base (no underscores, no prefix):
  an optional sign, then at least one digit; an error when the value does not fit the
  signed \<open>bitSize\<close>.  \<open>strconv.Atoi(s)\<close> is \<open>ParseInt(s, 10, 0)\<close> with Go's \<open>int\<close> of 64 bits.
\<close>

definition ParseInt :: "string \<Rightarrow> nat \<Rightarrow> nat \<Rightarrow> int option" where
  "ParseInt s base bitSize =
     (let neg = (s \<noteq> [] \<and> hd s = CHR ''-'');
          ds = (if s \<noteq> [] \<and> (hd s = CHR ''+'' \<or> hd s = CHR ''-'') then tl s else s)
      in if ds = [] then None
         else case parseDigits base 0 ds of
                None \<Rightarrow> None
              | Some un \<Rightarrow>
                  if \<not> neg \<and> un \<ge> 2 ^ (bitSize - 1) then None
                  else if neg \<and> un > 2 ^ (bitSize - 1) then None
                  else Some (if neg then - int un else int un))"

definition Atoi :: "string \<Rightarrow> int option" where
  "Atoi s = ParseInt s 10 64"

text \<open>
  \<open>strconv.ParseFloat(s, 64)\<close> and \<open>time.Parse(time.RFC3339, s)\<close> are parameters, with the
  types \<open>float64\<close> (\<open>'f\<close>) and \<open>time.Time\<close> (\<open>'t\<close>): \<open>None\<close> is a non-nil error.
\<close>

record ('f, 't) lib =
  ParseFloat :: "string \<Rightarrow> 'f option"
  ParseTime :: "string \<Rightarrow> 't option"

text \<open>
  Errors: \<open>io.EOF\<close>, any other failure of the underlying reader, \<open>errors.New(msg)\<close>, and
  \<open>fmt.Errorf("%s at %d:%d", msg, line, col)\<close>, kept as its three arguments.
\<close>

datatype error = EOF | IOError string | ErrNew string | Errorf string int int

text \<open>
  A \<open>bufio.Reader\<close> over a stream whose bytes are all in its buffer: \<open>buf\<close> holds them,
  \<open>pos\<close> is the read index, \<open>lastByte\<close> and \<open>lastRuneSize\<close> are the library's fields behind
  \<open>UnreadByte\<close> and \<open>UnreadRune\<close> (the byte last read is \<open>buf ! (pos - 1)\<close>, so \<open>lastByte\<close>
  only records that there is one), and \<open>rderr\<close> is what the underlying reader returns once
  the bytes are used up: \<open>io.EOF\<close> at the end of a stream, or its failure.
\<close>

record bufio_Reader =
  buf :: string
  pos :: nat
  lastByte :: bool
  lastRuneSize :: int
  rderr :: error

definition NewReader_bufio :: "string \<Rightarrow> bufio_Reader" where
  "NewReader_bufio s = \<lparr>buf = s, pos = 0, lastByte = False, lastRuneSize = -1, rderr = EOF\<rparr>"

definition ReadRune :: "bufio_Reader \<Rightarrow> (error + int \<times> nat) \<times> bufio_Reader" where
  "ReadRune b =
     (if length (buf b) \<le> pos b then (Inl (rderr b), b\<lparr>lastRuneSize := -1\<rparr>)
      else let (rn, sz) = DecodeRuneInString (drop (pos b) (buf b))
           in (Inr (rn, sz),
               b\<lparr>pos := pos b + sz, lastByte := True, lastRuneSize := int sz\<rparr>))"

definition UnreadRune :: "bufio_Reader \<Rightarrow> bufio_Reader" where
  "UnreadRune b =
     (if lastRuneSize b < 0 \<or> int (pos b) < lastRuneSize b then b
      else b\<lparr>pos := pos b - nat (lastRuneSize b), lastByte := False, lastRuneSize := -1\<rparr>)"

definition ReadByte :: "bufio_Reader \<Rightarrow> (error + char) \<times> bufio_Reader" where
  "ReadByte b =
     (if length (buf b) \<le> pos b then (Inl (rderr b), b\<lparr>lastRuneSize := -1\<rparr>)
      else (Inr (buf b ! pos b), b\<lparr>pos := pos b + 1, lastByte := True, lastRuneSize := -1\<rparr>))"

definition UnreadByte :: "bufio_Reader \<Rightarrow> bufio_Reader" where
  "UnreadByte b =
     (if \<not> lastByte b \<or> pos b = 0 then b
      else b\<lparr>pos := pos b - 1, lastByte := False, lastRuneSize := -1\<rparr>)"

text \<open>
  \<open>Read(p)\<close> with \<open>len(p) = n\<close>: the next \<open>n\<close> bytes, or fewer when fewer are left; the
  underlying error when none is.
\<close>

definition Read :: "nat \<Rightarrow> bufio_Reader \<Rightarrow> (error + string) \<times> bufio_Reader" where
  "Read n b =
     (if length (buf b) \<le> pos b then (Inl (rderr b), b)
      else let p = take n (drop (pos b) (buf b))
           in (Inr p, b\<lparr>pos := pos b + length p, lastByte := True, lastRuneSize := -1\<rparr>))"


section \<open>The writer (jwriter.go)\<close>

definition openBrace :: char where "openBrace = CHR ''{''"
definition closeBrace :: char where "closeBrace = CHR ''}''"
definition comma_byte :: char where "comma_byte = CHR '',''"
definition colon :: char where "colon = CHR '':''"
definition openBracket :: char where "openBracket = CHR ''[''"
definition closeBracket :: char where "closeBracket = CHR '']''"
definition dquote :: char where "dquote = CHR 0x22"
definition backslash :: char where "backslash = CHR 0x5C"
definition escapedNL :: string where "escapedNL = [CHR 0x5C, CHR ''n'']"
definition escapedCR :: string where "escapedCR = [CHR 0x5C, CHR ''r'']"
definition escapedTab :: string where "escapedTab = [CHR 0x5C, CHR ''t'']"
definition escapedUnicode :: string where "escapedUnicode = [CHR 0x5C, CHR ''u'', CHR ''0'', CHR ''0'']"
definition badUnicode :: string where "badUnicode = [CHR 0x5C, CHR ''u'', CHR ''f'', CHR ''f'', CHR ''f'', CHR ''d'']"
definition null :: string where "null = ''null''"

definition hex :: string where
  "hex = ''0123456789abcdef''"

text \<open>
  \<open>safeSet\<close> is a table of 128 booleans indexed by the byte; the entries written in the
  source are those of \<open>' '\<close> (0x20) to \<open>'\u007f'\<close>, all \<open>true\<close> but the double quote (0x22) and
  the backslash (0x5C); the entries not written (0 to 31) are \<open>false\<close>.
\<close>

definition safeSet :: "nat \<Rightarrow> bool" where
  "safeSet b \<longleftrightarrow> 0x20 \<le> b \<and> b \<le> 0x7F \<and> b \<noteq> 0x22 \<and> b \<noteq> 0x5C"

text \<open>
  The struct \<open>writer\<close>.  The field \<open>w\<close> is the \<open>bufio.Writer\<close>: here, the bytes written so
  far (the return values of its write calls are dropped by the source).
\<close>

record writer =
  w :: string
  comma :: bool
  inObject :: bool

text \<open>
  A \<open>panic\<close> unwinds the call; it is the left summand of the result and carries its message
  and the writer as the panic found it (the writer is shared through a pointer, so what was
  written before the panic stays written).
\<close>

datatype panic = Panic string writer

type_synonym result = "panic + writer"

definition WriteByte :: "char \<Rightarrow> writer \<Rightarrow> writer" where
  "WriteByte c jw = jw\<lparr>w := w jw @ [c]\<rparr>"

definition WriteString :: "string \<Rightarrow> writer \<Rightarrow> writer" where
  "WriteString s jw = jw\<lparr>w := w jw @ s\<rparr>"

definition NewWriter :: writer where
  "NewWriter = \<lparr>w = [], comma = False, inObject = False\<rparr>"

definition sep :: "writer \<Rightarrow> writer" where
  \<comment> \<open>\<open>if jw.comma { jw.w.WriteByte(comma) }\<close>\<close>
  "sep jw = (if comma jw then WriteByte comma_byte jw else jw)"

definition writer_Object :: "(writer \<Rightarrow> result) \<Rightarrow> writer \<Rightarrow> result" where
  "writer_Object f jw =
     (if inObject jw then Inl (Panic ''Object can only contain Prop'' jw)
      else let jw1 = sep jw;
               saveInObject = inObject jw1;
               jw2 = WriteByte openBrace (jw1\<lparr>comma := False, inObject := True\<rparr>)
           in case f jw2 of
                Inl p \<Rightarrow> Inl p
              | Inr jw3 \<Rightarrow> Inr ((WriteByte closeBrace jw3)\<lparr>comma := True, inObject := saveInObject\<rparr>))"

definition writer_Array :: "(writer \<Rightarrow> result) \<Rightarrow> writer \<Rightarrow> result" where
  "writer_Array f jw =
     (if inObject jw then Inl (Panic ''Object can only contain Prop'' jw)
      else let jw1 = sep jw;
               jw2 = WriteByte openBracket (jw1\<lparr>comma := False\<rparr>)
           in case f jw2 of
                Inl p \<Rightarrow> Inl p
              | Inr jw3 \<Rightarrow> Inr ((WriteByte closeBracket jw3)\<lparr>comma := True\<rparr>))"

definition writer_Null :: "writer \<Rightarrow> result" where
  "writer_Null jw =
     (if inObject jw then Inl (Panic ''Object can only contain Prop'' jw)
      else Inr (WriteString null ((sep jw)\<lparr>comma := True\<rparr>)))"

definition writer_Int :: "int \<Rightarrow> writer \<Rightarrow> result" where
  "writer_Int i jw =
     (if inObject jw then Inl (Panic ''Object can only contain Prop'' jw)
      else Inr (WriteString (fmt_d i) ((sep jw)\<lparr>comma := True\<rparr>)))"

text \<open>
  \<open>Float64\<close> prints with \<open>fmt.Fprintf(jw.w, "%f", f)\<close>.  The type \<open>float64\<close> and its
  formatting belong to the Go library: the type is a parameter \<open>'f\<close> and the formatting a
  parameter \<open>fmt_f\<close>.
\<close>

definition writer_Float64 :: "('f \<Rightarrow> string) \<Rightarrow> 'f \<Rightarrow> writer \<Rightarrow> result" where
  "writer_Float64 fmt_f f jw =
     (if inObject jw then Inl (Panic ''Object can only contain Prop'' jw)
      else Inr (WriteString (fmt_f f) ((sep jw)\<lparr>comma := True\<rparr>)))"

definition writer_Bool :: "bool \<Rightarrow> writer \<Rightarrow> result" where
  "writer_Bool b jw =
     (if inObject jw then Inl (Panic ''Object can only contain Prop'' jw)
      else let jw1 = (sep jw)\<lparr>comma := True\<rparr>
           in if b then Inr (WriteString ''true'' jw1) else Inr (WriteString ''false'' jw1))"

definition writer_Raw :: "string \<Rightarrow> writer \<Rightarrow> result" where
  "writer_Raw s jw = Inr ((WriteString s jw)\<lparr>comma := False\<rparr>)"

definition writer_RawByte :: "char \<Rightarrow> writer \<Rightarrow> result" where
  "writer_RawByte b jw = Inr ((WriteByte b jw)\<lparr>comma := False\<rparr>)"

text \<open>
  The loop of \<open>String\<close>, on the indices \<open>start\<close> and \<open>i\<close> of the source.  \<open>flush\<close> is
  \<open>if start < i { jw.w.WriteString(s[start:i]) }\<close>.
\<close>

definition slice :: "string \<Rightarrow> nat \<Rightarrow> nat \<Rightarrow> string" where
  \<comment> \<open>\<open>s[lo:hi]\<close> for \<open>lo \<le> hi \<le> len(s)\<close>\<close>
  "slice s lo hi = take (hi - lo) (drop lo s)"

definition flush :: "string \<Rightarrow> nat \<Rightarrow> nat \<Rightarrow> writer \<Rightarrow> writer" where
  "flush s start i jw = (if start < i then WriteString (slice s start i) jw else jw)"

definition escape_byte :: "char \<Rightarrow> writer \<Rightarrow> writer" where
  \<comment> \<open>the \<open>switch b\<close> of the loop\<close>
  "escape_byte b jw =
     (if b = backslash \<or> b = dquote then WriteByte b (WriteByte backslash jw)
      else if b = CHR 0x0A then WriteString escapedNL jw
      else if b = CHR 0x0D then WriteString escapedCR jw
      else if b = CHR 0x09 then WriteString escapedTab jw
      else WriteByte (hex ! (byte b mod 16)) (WriteByte (hex ! (byte b div 16))
             (WriteString escapedUnicode jw)))"

function String_loop :: "string \<Rightarrow> nat \<Rightarrow> nat \<Rightarrow> writer \<Rightarrow> nat \<times> writer" where
  "String_loop s start i jw =
     (if i < length s then
        (if byte (s ! i) < RuneSelf then
           (if safeSet (byte (s ! i)) then String_loop s start (i + 1) jw
            else String_loop s (i + 1) (i + 1) (escape_byte (s ! i) (flush s start i jw)))
         else
           (if fst (DecodeRuneInString (drop i s)) = RuneError
                 \<and> snd (DecodeRuneInString (drop i s)) = 1
            then String_loop s (i + snd (DecodeRuneInString (drop i s)))
                   (i + snd (DecodeRuneInString (drop i s)))
                   (WriteString badUnicode (flush s start i jw))
            else String_loop s start (i + snd (DecodeRuneInString (drop i s))) jw))
      else (start, jw))"
  by pat_completeness auto
termination
proof (relation "measure (\<lambda>(s, start, i, jw). length s - i)")
  fix s :: string and start i :: nat and jw :: writer
  assume "i < length s"
  then have "1 \<le> snd (DecodeRuneInString (drop i s))"
    by (intro DecodeRuneInString_size) simp
  then show "((s, start, i + snd (DecodeRuneInString (drop i s)), jw), (s, start, i, jw))
      \<in> measure (\<lambda>(s, start, i, jw). length s - i)"
    using \<open>i < length s\<close> by simp
qed auto

declare String_loop.simps [simp del]

definition writer_String :: "string \<Rightarrow> writer \<Rightarrow> result" where
  "writer_String s jw =
     (if inObject jw then Inl (Panic ''Object can only contain Prop'' jw)
      else let jw1 = WriteByte dquote ((sep jw)\<lparr>comma := True\<rparr>);
               (start, jw2) = String_loop s 0 0 jw1;
               jw3 = (if start < length s then WriteString (drop start s) jw2 else jw2)
           in Inr (WriteByte dquote jw3))"

text \<open>
  The second argument of \<open>Prop\<close> is an \<open>interface{}\<close>; the type switch of the source tells
  \<open>nil\<close>, \<open>string\<close>, \<open>int\<close>, \<open>bool\<close>, \<open>float64\<close> and \<open>func()\<close> from every other dynamic type.  A
  \<open>func()\<close> is a closure over the writer: a function from the writer to a result.
\<close>

datatype 'f propval =
    VNil
  | VString string
  | VInt int
  | VBool bool
  | VFloat64 'f
  | VFunc "writer \<Rightarrow> result"
  | VOther

definition writer_Prop :: "('f \<Rightarrow> string) \<Rightarrow> string \<Rightarrow> 'f propval \<Rightarrow> writer \<Rightarrow> result" where
  "writer_Prop fmt_f name v jw =
     (if \<not> inObject jw then Inl (Panic ''Prop can only occur within Object'' jw)
      else case writer_String name (jw\<lparr>inObject := False\<rparr>) of
        Inl p \<Rightarrow> Inl p
      | Inr jw1 \<Rightarrow>
         (let jw2 = (WriteByte colon jw1)\<lparr>comma := False\<rparr>;
              r = (case v of
                     VNil \<Rightarrow> writer_Null jw2
                   | VString s \<Rightarrow> writer_String s jw2
                   | VInt i \<Rightarrow> writer_Int i jw2
                   | VBool b \<Rightarrow> writer_Bool b jw2
                   | VFloat64 f \<Rightarrow> writer_Float64 fmt_f f jw2
                   | VFunc f \<Rightarrow>
                       (case f jw2 of
                          Inl p \<Rightarrow> Inl p
                        | Inr jw3 \<Rightarrow>
                            if \<not> comma jw3
                            then Inl (Panic ''Prop value function did not write anything'' jw3)
                            else Inr jw3)
                   | VOther \<Rightarrow> Inl (Panic ''unknown Prop value type'' jw2))
          in case r of
               Inl p \<Rightarrow> Inl p
             | Inr jw4 \<Rightarrow> Inr (jw4\<lparr>comma := True, inObject := True\<rparr>)))"

subsection \<open>What the escaping is to produce\<close>

text \<open>
  The escaping as the specification words it, one encoding unit at a time: a double quote or a
  backslash gets a leading backslash; newline, carriage return and tab get their short
  escapes; any other byte below 0x20 becomes \<open>\u00XX\<close> with lowercase hexadecimal digits;
  every other byte below 0x80 is copied.  From a byte of 0x80 or more on, a well-formed
  UTF-8 sequence is copied whole, and a byte that starts none is replaced by \<open>\ufffd\<close>.
\<close>

definition escape_unit :: "char \<Rightarrow> string" where
  "escape_unit c =
     (if c = CHR 0x22 \<or> c = CHR 0x5C then [CHR 0x5C, c]
      else if c = CHR 0x0A then [CHR 0x5C, CHR ''n'']
      else if c = CHR 0x0D then [CHR 0x5C, CHR ''r'']
      else if c = CHR 0x09 then [CHR 0x5C, CHR ''t'']
      else if byte c < 0x20 then
        [CHR 0x5C, CHR ''u'', CHR ''0'', CHR ''0'',
         ''0123456789abcdef'' ! (byte c div 16), ''0123456789abcdef'' ! (byte c mod 16)]
      else [c])"

function escaped :: "string \<Rightarrow> string" where
  "escaped [] = []"
| "escaped (c # cs) =
     (if byte c < 0x80 then escape_unit c @ escaped cs
      else if DecodeRuneInString (c # cs) = (RuneError, 1)
      then [CHR 0x5C, CHR ''u'', CHR ''f'', CHR ''f'', CHR ''f'', CHR ''d''] @ escaped cs
      else take (snd (DecodeRuneInString (c # cs))) (c # cs)
             @ escaped (drop (snd (DecodeRuneInString (c # cs))) (c # cs)))"
  by pat_completeness auto
termination
proof (relation "measure length")
  fix c :: char and cs :: string
  have "1 \<le> snd (DecodeRuneInString (c # cs))"
    by (rule DecodeRuneInString_size) simp
  then show "(drop (snd (DecodeRuneInString (c # cs))) (c # cs), c # cs) \<in> measure length"
    by simp
qed auto

definition remaining :: "bufio_Reader \<Rightarrow> nat" where
  "remaining b = length (buf b) - pos b"

lemma ReadRune_progress:
  assumes "ReadRune b = (Inr x, b')"
  shows "remaining b' < remaining b"
proof -
  from assms have lt: "pos b < length (buf b)"
    by (auto simp add: ReadRune_def split: if_splits)
  then have "1 \<le> snd (DecodeRuneInString (drop (pos b) (buf b)))"
    by (intro DecodeRuneInString_size) simp
  with assms lt show ?thesis
    by (auto simp add: ReadRune_def remaining_def split: if_splits prod.splits)
qed

lemma ReadByte_progress: "ReadByte b = (Inr x, b') \<Longrightarrow> remaining b' < remaining b"
  by (auto simp add: ReadByte_def remaining_def split: if_splits)

lemma Read_remaining: "Read n b = (x, b') \<Longrightarrow> remaining b' \<le> remaining b"
  by (auto simp add: Read_def remaining_def Let_def split: if_splits)

section \<open>The decoder with error returns (\<open>Parse\<close>)\<close>

text \<open>
  The handler functions are closures: they act on the variables of the caller they capture
  (\<open>usr\<close>, of a type \<open>'u\<close> of the caller's) and, for the closure that \<open>parseObject\<close> builds,
  on the reader.  A handler is a function from this state to the error it returns and the
  new state; \<open>None\<close> stands for a handler that does not return.
\<close>

record 'u world =
  reader :: bufio_Reader
  usr :: 'u

type_synonym 'u action = "'u world \<Rightarrow> (error option \<times> 'u world) option"

datatype ('u, 'f, 't) Handlers = Handlers
  (hNull: "'u action option")
  (hInt: "(int \<Rightarrow> 'u action) option")
  (hFloat: "('f \<Rightarrow> 'u action) option")
  (hString: "(string \<Rightarrow> 'u action) option")
  (hTime: "('t \<Rightarrow> 'u action) option")
  (hBool: "(bool \<Rightarrow> 'u action) option")
  (hObject: "('u world \<Rightarrow>
      ((string \<Rightarrow> 'u world \<Rightarrow> (('u, 'f, 't) Handlers \<times> 'u world) option) \<times> 'u world) option) option")
  (hArray: "('u world \<Rightarrow> (('u, 'f, 't) Handlers \<times> 'u world) option) option")

type_synonym ('u, 'f, 't) KeyHandler =
  "string \<Rightarrow> 'u world \<Rightarrow> (('u, 'f, 't) Handlers \<times> 'u world) option"

definition empty :: "('u, 'f, 't) Handlers \<Rightarrow> bool" where
  "empty h \<longleftrightarrow> hNull h = None \<and> hInt h = None \<and> hFloat h = None \<and> hString h = None
     \<and> hTime h = None \<and> hBool h = None \<and> hObject h = None \<and> hArray h = None"

definition fail :: "string \<Rightarrow> 'u world \<Rightarrow> (error option \<times> 'u world) option" where
  \<comment> \<open>\<open>return errors.New(msg)\<close>\<close>
  "fail msg wd = Some (Some (ErrNew msg), wd)"

function skipWhitespace :: "bufio_Reader \<Rightarrow> bufio_Reader" where
  "skipWhitespace b =
     (case ReadRune b of
        (Inl e, b1) \<Rightarrow> b1
      | (Inr (rn, sz), b1) \<Rightarrow>
          if rn \<noteq> 0x20 \<and> rn \<noteq> 0x09 \<and> rn \<noteq> 0x0D \<and> rn \<noteq> 0x0A then UnreadRune b1
          else skipWhitespace b1)"
  by pat_completeness auto
termination
  by (relation "measure remaining") (auto dest: ReadRune_progress [OF sym])

declare skipWhitespace.simps [simp del]

function parseNumber_loop ::
  "string \<Rightarrow> bufio_Reader \<Rightarrow> error \<times> bufio_Reader + string \<times> bufio_Reader" where
  "parseNumber_loop num b =
     (case ReadByte b of
        (Inl e, b1) \<Rightarrow> if e = EOF then Inr (num, b1) else Inl (e, b1)
      | (Inr c, b1) \<Rightarrow>
          if c \<notin> set ''0123456789-+eE.'' then Inr (num, UnreadByte b1)
          else parseNumber_loop (num @ [c]) b1)"
  by pat_completeness auto
termination
  by (relation "measure (\<lambda>(num, b). remaining b)") (auto dest: ReadByte_progress [OF sym])

declare parseNumber_loop.simps [simp del]

definition parseNumber ::
  "('f, 't) lib \<Rightarrow> ('u, 'f, 't) Handlers \<Rightarrow> 'u action" where
  "parseNumber L handlers wd =
     (case parseNumber_loop [] (reader wd) of
        Inl (e, b) \<Rightarrow> Some (Some e, wd\<lparr>reader := b\<rparr>)
      | Inr (num, b) \<Rightarrow>
         (let wd1 = wd\<lparr>reader := b\<rparr>;
              float = (case hFloat handlers of
                         Some g \<Rightarrow>
                           (case ParseFloat L num of
                              Some x \<Rightarrow> g x wd1
                            | None \<Rightarrow> fail ''invalid JSON number'' wd1)
                       | None \<Rightarrow> fail ''unexpected number in JSON'' wd1)
          in case hInt handlers of
               Some f \<Rightarrow> (case Atoi num of Some i \<Rightarrow> f i wd1 | None \<Rightarrow> float)
             | None \<Rightarrow> float))"

function parseKeyword_loop ::
  "string \<Rightarrow> bufio_Reader \<Rightarrow> error \<times> bufio_Reader + string \<times> bufio_Reader" where
  "parseKeyword_loop kw b =
     (case ReadByte b of
        (Inl e, b1) \<Rightarrow> if e = EOF then Inr (kw, b1) else Inl (e, b1)
      | (Inr c, b1) \<Rightarrow>
          if c \<notin> set ''aeflnrstu'' then Inr (kw, UnreadByte b1)
          else parseKeyword_loop (kw @ [c]) b1)"
  by pat_completeness auto
termination
  by (relation "measure (\<lambda>(kw, b). remaining b)") (auto dest: ReadByte_progress [OF sym])

declare parseKeyword_loop.simps [simp del]

definition parseKeyword :: "('u, 'f, 't) Handlers \<Rightarrow> 'u action" where
  "parseKeyword handlers wd =
     (case parseKeyword_loop [] (reader wd) of
        Inl (e, b) \<Rightarrow> Some (Some e, wd\<lparr>reader := b\<rparr>)
      | Inr (kw, b) \<Rightarrow>
         (let wd1 = wd\<lparr>reader := b\<rparr> in
          if kw = ''true'' then
            (case hBool handlers of
               Some f \<Rightarrow> f True wd1
             | None \<Rightarrow> fail ''unexpected Boolean in JSON'' wd1)
          else if kw = ''false'' then
            (case hBool handlers of
               Some f \<Rightarrow> f False wd1
             | None \<Rightarrow> fail ''unexpected Boolean in JSON'' wd1)
          else if kw = ''null'' then
            (case hNull handlers of
               Some f \<Rightarrow> f wd1
             | None \<Rightarrow> fail ''unexpected null in JSON'' wd1)
          else fail ''unquoted string in JSON'' wd1))"

text \<open>
  The loop of \<open>parseString\<close>: \<open>Inr\<close> is the \<open>break\<close> at the closing quote, with the text
  built in \<open>sb\<close>; \<open>Inl\<close> is a \<open>return\<close> of an error from inside the loop.
\<close>

function parseString_loop ::
  "string \<Rightarrow> bufio_Reader \<Rightarrow> error \<times> bufio_Reader + string \<times> bufio_Reader" where
  "parseString_loop sb b =
     (case ReadRune b of
        (Inl e, b1) \<Rightarrow> Inl (e, b1)
      | (Inr (rn, sz), b1) \<Rightarrow>
          if rn = 0x22 then Inr (sb, b1)
          else if rn < 32 then Inl (ErrNew ''unexpected control character in JSON string'', b1)
          else if rn \<noteq> 0x5C then parseString_loop (sb @ EncodeRune rn) b1
          else
            (case ReadRune b1 of
               (Inl e, b2) \<Rightarrow> Inl (e, b2)
             | (Inr (esc, sz2), b2) \<Rightarrow>
                 if esc = 0x22 \<or> esc = 0x5C \<or> esc = 0x2F
                 then parseString_loop (sb @ EncodeRune esc) b2
                 else if esc = 0x62 then parseString_loop (sb @ [CHR 0x08]) b2
                 else if esc = 0x66 then parseString_loop (sb @ [CHR 0x0C]) b2
                 else if esc = 0x6E then parseString_loop (sb @ [CHR 0x0A]) b2
                 else if esc = 0x72 then parseString_loop (sb @ [CHR 0x0D]) b2
                 else if esc = 0x74 then parseString_loop (sb @ [CHR 0x09]) b2
                 else if esc = 0x75 then
                   (case Read 4 b2 of
                      (Inl e, b3) \<Rightarrow> Inl (e, b3)
                    | (Inr h, b3) \<Rightarrow>
                        if length h \<noteq> 4
                        then Inl (ErrNew ''invalid Unicode escape in JSON string'', b3)
                        else
                          (case ParseInt h 16 32 of
                             None \<Rightarrow> Inl (ErrNew ''invalid Unicode escape in JSON string'', b3)
                           | Some i \<Rightarrow> parseString_loop (sb @ EncodeRune i) b3))
                 else Inl (ErrNew ''unexpected escape sequence in JSON string'', b2)))"
  by pat_completeness auto
termination
proof (relation "measure (\<lambda>(sb, b). remaining b)", goal_cases)
  case 1
  show ?case by simp
next
  case (9 sb b x1 b1 x2 rn sz x3 b2 x4 esc sz2 x5 b3 h i)
  then have "remaining b1 < remaining b" "remaining b2 < remaining b1" "remaining b3 \<le> remaining b2"
    by (auto dest: ReadRune_progress [OF sym] Read_remaining [OF sym])
  then show ?case by simp
qed (auto dest!: ReadRune_progress [OF sym])

declare parseString_loop.simps [simp del]

definition parseString ::
  "('f, 't) lib \<Rightarrow> ('u, 'f, 't) Handlers \<Rightarrow> 'u action" where
  "parseString L handlers wd =
     (case parseString_loop [] (reader wd) of
        Inl (e, b) \<Rightarrow> Some (Some e, wd\<lparr>reader := b\<rparr>)
      | Inr (s, b) \<Rightarrow>
         (let wd1 = wd\<lparr>reader := b\<rparr>;
              str = (case hString handlers of
                       Some f \<Rightarrow> f s wd1
                     | None \<Rightarrow> fail ''unexpected string in JSON'' wd1)
          in case hTime handlers of
               Some f \<Rightarrow> (case ParseTime L s of Some t \<Rightarrow> f t wd1 | None \<Rightarrow> str)
             | None \<Rightarrow> str))"

text \<open>
  \<open>parseOne\<close>, \<open>parseObject\<close> and \<open>parseArray\<close> call each other, and a handler may change
  the reader, so their recursion is bounded by a fuel: entering an object or an array and
  each turn of their loops use one unit, and \<open>None\<close> is the result when it runs out.
  \<open>Handlers{String: func(key string) error {...}}\<close> of \<open>parseObject\<close> is the handler set
  whose only handler is the closure \<open>parseObject_key\<close>.
\<close>

function (sequential) parseOne ::
    "nat \<Rightarrow> ('f, 't) lib \<Rightarrow> ('u, 'f, 't) Handlers \<Rightarrow> 'u action"
  and parseObject ::
    "nat \<Rightarrow> ('f, 't) lib \<Rightarrow> ('u, 'f, 't) Handlers \<Rightarrow> 'u action"
  and parseObject_loop ::
    "nat \<Rightarrow> ('f, 't) lib \<Rightarrow> ('u, 'f, 't) KeyHandler \<Rightarrow> 'u action"
  and parseArray ::
    "nat \<Rightarrow> ('f, 't) lib \<Rightarrow> ('u, 'f, 't) Handlers \<Rightarrow> 'u action"
  and parseArray_loop ::
    "nat \<Rightarrow> ('f, 't) lib \<Rightarrow> ('u, 'f, 't) Handlers \<Rightarrow> 'u action"
where
  "parseOne n L handlers wd =
     (case ReadRune (skipWhitespace (reader wd)) of
        (Inl e, b1) \<Rightarrow> Some (Some e, wd\<lparr>reader := b1\<rparr>)
      | (Inr (rn, sz), b1) \<Rightarrow>
          if rn = 0x7B then parseObject n L handlers (wd\<lparr>reader := b1\<rparr>)
          else if rn = 0x5B then parseArray n L handlers (wd\<lparr>reader := b1\<rparr>)
          else if (0x30 \<le> rn \<and> rn \<le> 0x39) \<or> rn = 0x2D
          then parseNumber L handlers (wd\<lparr>reader := UnreadRune b1\<rparr>)
          else if rn = 0x74 \<or> rn = 0x66 \<or> rn = 0x6E
          then parseKeyword handlers (wd\<lparr>reader := UnreadRune b1\<rparr>)
          else if rn = 0x22 then parseString L handlers (wd\<lparr>reader := b1\<rparr>)
          else fail ''JSON syntax error'' (wd\<lparr>reader := b1\<rparr>))"
| "parseObject 0 L handlers wd = None"
| "parseObject (Suc n) L handlers wd =
     (case hObject handlers of
        None \<Rightarrow> fail ''unexpected '{' in JSON'' wd
      | Some object \<Rightarrow>
         (case object wd of
            None \<Rightarrow> None
          | Some (hf, wd0) \<Rightarrow>
             (case ReadRune (skipWhitespace (reader wd0)) of
                (Inl e, b1) \<Rightarrow> Some (Some e, wd0\<lparr>reader := b1\<rparr>)
              | (Inr (rn, sz), b1) \<Rightarrow>
                  if rn = 0x7D then Some (None, wd0\<lparr>reader := b1\<rparr>)
                  else parseObject_loop n L hf (wd0\<lparr>reader := UnreadRune b1\<rparr>))))"
| "parseObject_loop 0 L hf wd = None"
| "parseObject_loop (Suc n) L hf wd =
     (case parseOne n L
             (Handlers None None None
                (Some (\<lambda>key wk.
                   case hf key wk of
                     None \<Rightarrow> None
                   | Some (vhandlers, wk0) \<Rightarrow>
                       if empty vhandlers
                       then fail (''unexpected key '' @ [CHR 0x22] @ key @ [CHR 0x22] @ '' in JSON'') wk0
                       else
                         (case ReadRune (skipWhitespace (reader wk0)) of
                            (Inl e, b1) \<Rightarrow> Some (Some e, wk0\<lparr>reader := b1\<rparr>)
                          | (Inr (rn, sz), b1) \<Rightarrow>
                              if rn \<noteq> 0x3A then fail ''expected ':' in JSON'' (wk0\<lparr>reader := b1\<rparr>)
                              else parseOne n L vhandlers (wk0\<lparr>reader := b1\<rparr>))))
                None None None None) wd of
        None \<Rightarrow> None
      | Some (Some e, wd1) \<Rightarrow> Some (Some e, wd1)
      | Some (None, wd1) \<Rightarrow>
         (case ReadRune (skipWhitespace (reader wd1)) of
            (Inl e, b1) \<Rightarrow> Some (Some e, wd1\<lparr>reader := b1\<rparr>)
          | (Inr (rn, sz), b1) \<Rightarrow>
              if rn = 0x7D then Some (None, wd1\<lparr>reader := b1\<rparr>)
              else if rn \<noteq> 0x2C then fail ''expected '}' or ',' in JSON'' (wd1\<lparr>reader := b1\<rparr>)
              else parseObject_loop n L hf (wd1\<lparr>reader := b1\<rparr>)))"
| "parseArray 0 L handlers wd = None"
| "parseArray (Suc n) L handlers wd =
     (case hArray handlers of
        None \<Rightarrow> fail ''unexpected '[' in JSON'' wd
      | Some array \<Rightarrow>
         (case array wd of
            None \<Rightarrow> None
          | Some (vhandlers, wd0) \<Rightarrow>
             (case ReadRune (skipWhitespace (reader wd0)) of
                (Inl e, b1) \<Rightarrow> Some (Some e, wd0\<lparr>reader := b1\<rparr>)
              | (Inr (rn, sz), b1) \<Rightarrow>
                  if rn = 0x5D then Some (None, wd0\<lparr>reader := b1\<rparr>)
                  else parseArray_loop n L vhandlers (wd0\<lparr>reader := UnreadRune b1\<rparr>))))"
| "parseArray_loop 0 L vhandlers wd = None"
| "parseArray_loop (Suc n) L vhandlers wd =
     (case parseOne n L vhandlers wd of
        None \<Rightarrow> None
      | Some (Some e, wd1) \<Rightarrow> Some (Some e, wd1)
      | Some (None, wd1) \<Rightarrow>
         (case ReadRune (skipWhitespace (reader wd1)) of
            (Inl e, b1) \<Rightarrow> Some (Some e, wd1\<lparr>reader := b1\<rparr>)
          | (Inr (rn, sz), b1) \<Rightarrow>
              if rn = 0x5D then Some (None, wd1\<lparr>reader := b1\<rparr>)
              else if rn \<noteq> 0x2C then fail ''expected ']' or ',' in JSON'' (wd1\<lparr>reader := b1\<rparr>)
              else parseArray_loop n L vhandlers (wd1\<lparr>reader := b1\<rparr>)))"

  by pat_completeness auto
termination
  by (relation "measure (\<lambda>x. case x of
        Inl (Inl (n, _)) \<Rightarrow> 2 * n + 1
      | Inl (Inr (n, _)) \<Rightarrow> 2 * n
      | Inr (Inl (n, _)) \<Rightarrow> 2 * n
      | Inr (Inr (Inl (n, _))) \<Rightarrow> 2 * n
      | Inr (Inr (Inr (n, _))) \<Rightarrow> 2 * n)") simp_all

text \<open>
  \<open>Parse\<close>: one value, then runes up to the end of the stream, all of which must be
  white space.  Its argument \<open>wd\<close> holds the \<open>bufio.NewReader(reader)\<close> it starts from.
\<close>

function Parse_loop :: "bufio_Reader \<Rightarrow> error option \<times> bufio_Reader" where
  "Parse_loop b =
     (case ReadRune b of
        (Inl e, b1) \<Rightarrow> if e = EOF then (None, b1) else (Some e, b1)
      | (Inr (rn, sz), b1) \<Rightarrow>
          if \<not> IsSpace rn then (Some (ErrNew ''extra text after JSON''), b1)
          else Parse_loop b1)"
  by pat_completeness auto
termination
  by (relation "measure remaining") (auto dest: ReadRune_progress [OF sym])

declare Parse_loop.simps [simp del]

definition Parse ::
  "nat \<Rightarrow> ('f, 't) lib \<Rightarrow> ('u, 'f, 't) Handlers \<Rightarrow> 'u action" where
  "Parse n L handlers wd =
     (case parseOne n L handlers wd of
        None \<Rightarrow> None
      | Some (Some e, wd1) \<Rightarrow> Some (Some e, wd1)
      | Some (None, wd1) \<Rightarrow>
          (case Parse_loop (reader wd1) of (e, b) \<Rightarrow> Some (e, wd1\<lparr>reader := b\<rparr>)))"

section \<open>The decoder with a reader and \<open>Raise\<close> (\<open>Reader.Read\<close>)\<close>

text \<open>
  The struct \<open>Reader\<close>; its field \<open>r\<close> is \<open>rdr\<close> here.  The handler functions of this
  decoder return nothing; they are closures over the reader (a handler reports a failure
  with \<open>Raise\<close>) and over the variables of the caller, which \<open>user\<close> holds.
\<close>

record 'u Reader =
  rdr :: bufio_Reader
  line :: int
  col :: int
  err :: "error option"
  user :: 'u

type_synonym 'u handler = "'u Reader \<Rightarrow> 'u Reader option"

datatype ('u, 'f, 't) Reader_Handlers = Reader_Handlers
  (Ignore: bool)
  (rNull: "'u handler option")
  (rInt: "(int \<Rightarrow> 'u handler) option")
  (rFloat: "('f \<Rightarrow> 'u handler) option")
  (rString: "(string \<Rightarrow> 'u handler) option")
  (rTime: "('t \<Rightarrow> 'u handler) option")
  (rBool: "(bool \<Rightarrow> 'u handler) option")
  (rObject: "(string \<Rightarrow> 'u Reader \<Rightarrow> (('u, 'f, 't) Reader_Handlers \<times> 'u Reader) option) option")
  (rArray: "('u Reader \<Rightarrow> (('u, 'f, 't) Reader_Handlers \<times> 'u Reader) option) option")

definition Reader_empty :: "('u, 'f, 't) Reader_Handlers \<Rightarrow> bool" where
  "Reader_empty h \<longleftrightarrow> \<not> Ignore h \<and> rNull h = None \<and> rInt h = None \<and> rFloat h = None
     \<and> rString h = None \<and> rTime h = None \<and> rBool h = None \<and> rObject h = None
     \<and> rArray h = None"

definition NewReader :: "string \<Rightarrow> 'u \<Rightarrow> 'u Reader" where
  "NewReader s u = \<lparr>rdr = NewReader_bufio s, line = 1, col = 1, err = None, user = u\<rparr>"

definition Raise :: "string \<Rightarrow> 'u Reader \<Rightarrow> 'u Reader" where
  "Raise msg h = (if err h = None then h\<lparr>err := Some (Errorf msg (line h) (col h))\<rparr> else h)"

definition readRune :: "bool \<Rightarrow> 'u Reader \<Rightarrow> int \<times> 'u Reader" where
  "readRune allowEOF h =
     (case ReadRune (rdr h) of
        (Inl e, b) \<Rightarrow>
          if e = EOF \<and> allowEOF then (0, h\<lparr>rdr := b\<rparr>)
          else (0, h\<lparr>rdr := b, err := Some e\<rparr>)
      | (Inr (rn, sz), b) \<Rightarrow>
          if rn = 0x0A then (rn, h\<lparr>rdr := b, line := line h + 1, col := 1\<rparr>)
          else (rn, h\<lparr>rdr := b, col := col h + 1\<rparr>))"

definition unreadRune :: "'u Reader \<Rightarrow> 'u Reader" where
  "unreadRune h = h\<lparr>rdr := UnreadRune (rdr h), col := col h - 1\<rparr>"

lemma readRune_progress:
  "readRune allowEOF h = (rn, h1) \<Longrightarrow> rn \<noteq> 0 \<Longrightarrow> remaining (rdr h1) < remaining (rdr h)"
  by (auto simp add: readRune_def split: prod.splits sum.splits if_splits
      dest: ReadRune_progress)

function Reader_skipWhitespace :: "'u Reader \<Rightarrow> 'u Reader" where
  "Reader_skipWhitespace h =
     (case readRune False h of
        (rn, h1) \<Rightarrow>
          if rn = 0 then h1
          else if rn = 0x20 \<or> rn = 0x09 \<or> rn = 0x0D \<or> rn = 0x0A then unreadRune h1
          else Reader_skipWhitespace h1)"
  by pat_completeness auto
termination
  by (relation "measure (\<lambda>h. remaining (rdr h))") (auto dest: readRune_progress [OF sym])

declare Reader_skipWhitespace.simps [simp del]

definition runes_of :: "string \<Rightarrow> int set" where
  \<comment> \<open>the runes of an ASCII string, for \<open>strings.IndexRune(s, r) < 0\<close>\<close>
  "runes_of s = (\<lambda>c. int (byte c)) ` set s"

function Reader_parseNumber_loop :: "string \<Rightarrow> 'u Reader \<Rightarrow> string \<times> 'u Reader" where
  "Reader_parseNumber_loop num h =
     (case readRune True h of
        (rn, h1) \<Rightarrow>
          if rn = 0 then (num, h1)
          else if rn \<notin> runes_of ''0123456789-+eE.'' then (num, unreadRune h1)
          else Reader_parseNumber_loop (num @ [char_of (nat rn)]) h1)"
  by pat_completeness auto
termination
  by (relation "measure (\<lambda>(num, h). remaining (rdr h))") (auto dest: readRune_progress [OF sym])

declare Reader_parseNumber_loop.simps [simp del]

definition Reader_parseNumber ::
  "('f, 't) lib \<Rightarrow> ('u, 'f, 't) Reader_Handlers \<Rightarrow> 'u handler" where
  "Reader_parseNumber L handlers h =
     (case Reader_parseNumber_loop [] h of
        (num, h1) \<Rightarrow>
          if err h1 \<noteq> None \<or> Ignore handlers then Some h1
          else
            (let float = (case rFloat handlers of
                            Some g \<Rightarrow>
                              (case ParseFloat L num of
                                 Some x \<Rightarrow> g x h1
                               | None \<Rightarrow> Some (Raise ''invalid JSON number'' h1))
                          | None \<Rightarrow> Some (Raise ''unexpected number in JSON'' h1))
             in case rInt handlers of
                  Some f \<Rightarrow>
                    (case Atoi num of
                       Some i \<Rightarrow> f i h1
                     | None \<Rightarrow>
                         if rFloat handlers = None
                         then Some (Raise ''JSON number is not an integer'' h1)
                         else float)
                | None \<Rightarrow> float))"

function Reader_parseKeyword_loop :: "string \<Rightarrow> 'u Reader \<Rightarrow> string \<times> 'u Reader" where
  "Reader_parseKeyword_loop kw h =
     (case readRune True h of
        (rn, h1) \<Rightarrow>
          if rn = 0 then (kw, h1)
          else if rn \<notin> runes_of ''aeflnrstu'' then (kw, unreadRune h1)
          else Reader_parseKeyword_loop (kw @ [char_of (nat rn)]) h1)"
  by pat_completeness auto
termination
  by (relation "measure (\<lambda>(kw, h). remaining (rdr h))") (auto dest: readRune_progress [OF sym])

declare Reader_parseKeyword_loop.simps [simp del]

definition Reader_parseKeyword :: "('u, 'f, 't) Reader_Handlers \<Rightarrow> 'u handler" where
  "Reader_parseKeyword handlers h =
     (case Reader_parseKeyword_loop [] h of
        (kw, h1) \<Rightarrow>
          if kw = ''true'' then
            (if Ignore handlers then Some h1
             else case rBool handlers of
                    Some f \<Rightarrow> f True h1
                  | None \<Rightarrow> Some (Raise ''unexpected Boolean in JSON'' h1))
          else if kw = ''false'' then
            (if Ignore handlers then Some h1
             else case rBool handlers of
                    Some f \<Rightarrow> f False h1
                  | None \<Rightarrow> Some (Raise ''unexpected Boolean in JSON'' h1))
          else if kw = ''null'' then
            (if Ignore handlers then Some h1
             else case rNull handlers of
                    Some f \<Rightarrow> f h1
                  | None \<Rightarrow> Some (Raise ''unexpected null in JSON'' h1))
          else Some (Raise ''unquoted string in JSON'' h1))"

text \<open>
  The loop of \<open>Reader.parseString\<close>: \<open>Inr\<close> is the \<open>break\<close> at the closing quote, \<open>Inl\<close> a
  \<open>return\<close> from inside the loop.
\<close>

function Reader_parseString_loop ::
  "string \<Rightarrow> 'u Reader \<Rightarrow> 'u Reader + string \<times> 'u Reader" where
  "Reader_parseString_loop sb h =
     (case readRune False h of
        (rn, h1) \<Rightarrow>
          if rn = 0 then Inl h1
          else if rn = 0x22 then Inr (sb, h1)
          else if rn < 32 then Inl (Raise ''unexpected control character in JSON string'' h1)
          else if rn \<noteq> 0x5C then Reader_parseString_loop (sb @ EncodeRune rn) h1
          else
            (case readRune False h1 of
               (esc, h2) \<Rightarrow>
                 if esc = 0 then Inl h2
                 else if esc = 0x22 \<or> esc = 0x5C \<or> esc = 0x2F
                 then Reader_parseString_loop (sb @ EncodeRune esc) h2
                 else if esc = 0x62 then Reader_parseString_loop (sb @ [CHR 0x08]) h2
                 else if esc = 0x66 then Reader_parseString_loop (sb @ [CHR 0x0C]) h2
                 else if esc = 0x6E then Reader_parseString_loop (sb @ [CHR 0x0A]) h2
                 else if esc = 0x72 then Reader_parseString_loop (sb @ [CHR 0x0D]) h2
                 else if esc = 0x74 then Reader_parseString_loop (sb @ [CHR 0x09]) h2
                 else if esc = 0x75 then
                   (case Read 4 (rdr h2) of
                      (Inl e, b) \<Rightarrow> Inl (h2\<lparr>rdr := b, err := Some e\<rparr>)
                    | (Inr u, b) \<Rightarrow>
                        if length u \<noteq> 4
                        then Inl (Raise ''invalid Unicode escape in JSON string'' (h2\<lparr>rdr := b\<rparr>))
                        else
                          (case ParseInt u 16 32 of
                             None \<Rightarrow>
                               Inl (Raise ''invalid Unicode escape in JSON string''
                                      (h2\<lparr>rdr := b, col := col h2 + 4\<rparr>))
                           | Some i \<Rightarrow>
                               Reader_parseString_loop (sb @ EncodeRune i)
                                 (h2\<lparr>rdr := b, col := col h2 + 4\<rparr>)))
                 else Inl (Raise ''unexpected escape sequence in JSON string'' h2)))"
  by pat_completeness auto
termination
proof (relation "measure (\<lambda>(sb, h). remaining (rdr h))", goal_cases)
  case 1
  show ?case by simp
next
  case (9 sb h rn h1 esc h2 x b u i)
  then have "remaining (rdr h1) < remaining (rdr h)"
    "remaining (rdr h2) < remaining (rdr h1)" "remaining b \<le> remaining (rdr h2)"
    by (auto dest: readRune_progress [OF sym] Read_remaining [OF sym])
  then show ?case by simp
qed (auto dest!: readRune_progress [OF sym])

declare Reader_parseString_loop.simps [simp del]

definition Reader_parseString ::
  "('f, 't) lib \<Rightarrow> ('u, 'f, 't) Reader_Handlers \<Rightarrow> 'u handler" where
  "Reader_parseString L handlers h =
     (case Reader_parseString_loop [] h of
        Inl h1 \<Rightarrow> Some h1
      | Inr (s, h1) \<Rightarrow>
         (let str = (case rString handlers of
                       Some f \<Rightarrow> f s h1
                     | None \<Rightarrow> Some (Raise ''unexpected string in JSON'' h1))
          in case rTime handlers of
               Some f \<Rightarrow>
                 (case ParseTime L s of
                    Some t \<Rightarrow> f t h1
                  | None \<Rightarrow>
                      if rString handlers = None
                      then Some (Raise ''invalid time string in JSON'' h1)
                      else str)
             | None \<Rightarrow> str))"

text \<open>
  \<open>Reader.parseOne\<close>, \<open>Reader.parseObject\<close> and \<open>Reader.parseArray\<close>, with the same fuel.
  In \<open>parseObject\<close> the closure given as the \<open>String\<close> handler of the key reads the colon
  and the value; \<open>handlers.Object(key)\<close> is only reached with \<open>handlers.Object\<close> set
  (the function has returned before otherwise).
\<close>

function (sequential) Reader_parseOne ::
    "nat \<Rightarrow> ('f, 't) lib \<Rightarrow> ('u, 'f, 't) Reader_Handlers \<Rightarrow> 'u handler"
  and Reader_parseObject ::
    "nat \<Rightarrow> ('f, 't) lib \<Rightarrow> ('u, 'f, 't) Reader_Handlers \<Rightarrow> 'u handler"
  and Reader_parseObject_loop ::
    "nat \<Rightarrow> ('f, 't) lib \<Rightarrow> ('u, 'f, 't) Reader_Handlers \<Rightarrow> 'u handler"
  and Reader_parseArray ::
    "nat \<Rightarrow> ('f, 't) lib \<Rightarrow> ('u, 'f, 't) Reader_Handlers \<Rightarrow> 'u handler"
  and Reader_parseArray_loop ::
    "nat \<Rightarrow> ('f, 't) lib \<Rightarrow> ('u, 'f, 't) Reader_Handlers \<Rightarrow> 'u handler"
where
  "Reader_parseOne n L handlers h =
     (case readRune False (Reader_skipWhitespace h) of
        (rn, h1) \<Rightarrow>
          if rn = 0 then Some h1
          else if rn = 0x7B then Reader_parseObject n L handlers h1
          else if rn = 0x5B then Reader_parseArray n L handlers h1
          else if (0x30 \<le> rn \<and> rn \<le> 0x39) \<or> rn = 0x2D
          then Reader_parseNumber L handlers (unreadRune h1)
          else if rn = 0x74 \<or> rn = 0x66 \<or> rn = 0x6E
          then Reader_parseKeyword handlers (unreadRune h1)
          else if rn = 0x22 then Reader_parseString L handlers h1
          else Some (Raise ''syntax error in JSON'' h1))"
| "Reader_parseObject 0 L handlers h = None"
| "Reader_parseObject (Suc n) L handlers h =
     (if rObject handlers = None \<and> \<not> Ignore handlers
      then Some (Raise ''unexpected '{' in JSON'' h)
      else case readRune False (Reader_skipWhitespace h) of
             (rn, h1) \<Rightarrow>
               if rn = 0 \<or> rn = 0x7D then Some h1
               else Reader_parseObject_loop n L handlers (unreadRune h1))"
| "Reader_parseObject_loop 0 L handlers h = None"
| "Reader_parseObject_loop (Suc n) L handlers h =
     (if err h \<noteq> None then Some h
      else
        case Reader_parseOne n L
               (Reader_Handlers False None None None
                  (Some (\<lambda>key hk.
                     case (if Ignore handlers then Some (handlers, hk)
                           else case rObject handlers of
                                  Some object \<Rightarrow> object key hk
                                | None \<Rightarrow> None) of
                       None \<Rightarrow> None
                     | Some (vhandlers, hk0) \<Rightarrow>
                         if Reader_empty vhandlers
                         then Some (Raise (''unexpected key '' @ [CHR 0x22] @ key @ [CHR 0x22]
                                             @ '' in JSON'') hk0)
                         else
                           (case readRune False (Reader_skipWhitespace hk0) of
                              (rn, hk1) \<Rightarrow>
                                if rn = 0 then Some hk1
                                else if rn \<noteq> 0x3A then Some (Raise ''expected ':' in JSON'' hk1)
                                else Reader_parseOne n L vhandlers hk1)))
                  None None None None) h of
          None \<Rightarrow> None
        | Some h1 \<Rightarrow>
            if err h1 \<noteq> None then Some h1
            else
              (case readRune False (Reader_skipWhitespace h1) of
                 (rn, h2) \<Rightarrow>
                   if rn = 0 \<or> rn = 0x7D then Some h2
                   else if rn \<noteq> 0x2C then Some (Raise ''expected '}' or ',' in JSON'' h2)
                   else Reader_parseObject_loop n L handlers h2))"
| "Reader_parseArray 0 L handlers h = None"
| "Reader_parseArray (Suc n) L handlers h =
     (if rArray handlers = None \<and> \<not> Ignore handlers
      then Some (Raise ''unexpected '[' in JSON'' h)
      else
        case (if Ignore handlers then Some (handlers, h)
              else case rArray handlers of
                     Some array \<Rightarrow> array h
                   | None \<Rightarrow> None) of
          None \<Rightarrow> None
        | Some (vhandlers, h0) \<Rightarrow>
           (case readRune False (Reader_skipWhitespace h0) of
              (rn, h1) \<Rightarrow>
                if rn = 0 \<or> rn = 0x5D then Some h1
                else Reader_parseArray_loop n L vhandlers (unreadRune h1)))"
| "Reader_parseArray_loop 0 L vhandlers h = None"
| "Reader_parseArray_loop (Suc n) L vhandlers h =
     (case Reader_parseOne n L vhandlers h of
        None \<Rightarrow> None
      | Some h1 \<Rightarrow>
          if err h1 \<noteq> None then Some h1
          else
            (case readRune False (Reader_skipWhitespace h1) of
               (rn, h2) \<Rightarrow>
                 if rn = 0 \<or> rn = 0x5D then Some h2
                 else if rn \<noteq> 0x2C then Some (Raise ''expected ']' or ',' in JSON'' h2)
                 else Reader_parseArray_loop n L vhandlers h2))"
  by pat_completeness auto
termination
  by (relation "measure (\<lambda>x. case x of
        Inl (Inl (n, _)) \<Rightarrow> 2 * n + 1
      | Inl (Inr (n, _)) \<Rightarrow> 2 * n
      | Inr (Inl (n, _)) \<Rightarrow> 2 * n
      | Inr (Inr (Inl (n, _))) \<Rightarrow> 2 * n
      | Inr (Inr (Inr (n, _))) \<Rightarrow> 2 * n)") simp_all

text \<open>
  \<open>Reader.Read\<close> returns \<open>h.err\<close>; the result is that error with the reader as the call
  leaves it.
\<close>

function Reader_Read_loop :: "'u Reader \<Rightarrow> 'u Reader" where
  "Reader_Read_loop h =
     (case readRune True h of
        (rn, h1) \<Rightarrow>
          if rn = 0 then h1
          else if rn \<noteq> 0x20 \<and> rn \<noteq> 0x09 \<and> rn \<noteq> 0x0D \<and> rn \<noteq> 0x0A
          then Raise ''extra text after JSON'' h1
          else Reader_Read_loop h1)"
  by pat_completeness auto
termination
  by (relation "measure (\<lambda>h. remaining (rdr h))") (auto dest: readRune_progress [OF sym])

declare Reader_Read_loop.simps [simp del]

definition Reader_Read ::
  "nat \<Rightarrow> ('f, 't) lib \<Rightarrow> ('u, 'f, 't) Reader_Handlers \<Rightarrow> 'u Reader
     \<Rightarrow> (error option \<times> 'u Reader) option" where
  "Reader_Read n L handlers h =
     (case Reader_parseOne n L handlers h of
        None \<Rightarrow> None
      | Some h1 \<Rightarrow>
          if err h1 \<noteq> None then Some (err h1, h1)
          else let h2 = Reader_Read_loop h1 in Some (err h2, h2))"


definition IgnoreHandler :: "('u, 'f, 't) Reader_Handlers" where
  "IgnoreHandler = Reader_Handlers True None None None None None None None None"

definition NullHandler :: "'u handler \<Rightarrow> ('u, 'f, 't) Reader_Handlers" where
  "NullHandler f = Reader_Handlers False (Some f) None None None None None None None"

definition IntHandler :: "(int \<Rightarrow> 'u handler) \<Rightarrow> ('u, 'f, 't) Reader_Handlers" where
  "IntHandler f = Reader_Handlers False None (Some f) None None None None None None"

definition FloatHandler :: "('f \<Rightarrow> 'u handler) \<Rightarrow> ('u, 'f, 't) Reader_Handlers" where
  "FloatHandler f = Reader_Handlers False None None (Some f) None None None None None"

definition StringHandler :: "(string \<Rightarrow> 'u handler) \<Rightarrow> ('u, 'f, 't) Reader_Handlers" where
  "StringHandler f = Reader_Handlers False None None None (Some f) None None None None"

definition TimeHandler :: "('t \<Rightarrow> 'u handler) \<Rightarrow> ('u, 'f, 't) Reader_Handlers" where
  "TimeHandler f = Reader_Handlers False None None None None (Some f) None None None"

definition BoolHandler :: "(bool \<Rightarrow> 'u handler) \<Rightarrow> ('u, 'f, 't) Reader_Handlers" where
  "BoolHandler f = Reader_Handlers False None None None None None (Some f) None None"

section \<open>Notions for stating the properties\<close>



text \<open>
  For the examples: a caller whose handlers append what they are called with to a list, and
  library functions that convert the texts of one float (as written short, and as \<open>%f\<close>
  prints it) and one RFC 3339 text (\<open>float64\<close> is \<open>real\<close> and \<open>time.Time\<close> a count of
  seconds there).
\<close>

datatype ('f, 't) call =
  Call_Null | Call_Int int | Call_Float 'f | Call_String string | Call_Time 't | Call_Bool bool

definition record_call :: "('f, 't) call \<Rightarrow> ('f, 't) call list Reader \<Rightarrow> ('f, 't) call list Reader option" where
  "record_call c h = Some (h\<lparr>user := user h @ [c]\<rparr>)"

definition lib_example :: "(real, int) lib" where
  "lib_example =
     \<lparr>ParseFloat = (\<lambda>s. if s = ''42.5'' \<or> s = ''42.500000'' then Some 42.5 else None),
      ParseTime = (\<lambda>s. if s = ''2020-01-02T03:04:05Z'' then Some 1577934245 else None)\<rparr>"



definition verdict :: "(error option \<times> 'u world) option \<Rightarrow> (error option \<times> 'u) option" where
  "verdict r = map_option (\<lambda>(e, wd). (e, usr wd)) r"


definition decode ::
  "nat \<Rightarrow> ('f, 't) lib \<Rightarrow> (('f, 't) call list, 'f, 't) Handlers \<Rightarrow> result
     \<Rightarrow> (error option \<times> ('f, 't) call list) option" where
  "decode n L handlers r =
     (case r of
        Inl p \<Rightarrow> None
      | Inr jw \<Rightarrow> verdict (Parse n L handlers \<lparr>reader = NewReader_bufio (w jw), usr = []\<rparr>))"

text \<open>What a loop that reads a string ends with: the error, or the text read.\<close>

definition outcome :: "error \<times> bufio_Reader + string \<times> bufio_Reader \<Rightarrow> error + string" where
  "outcome r = map_sum fst fst r"

declare parseOne.simps [simp del]
declare Reader_parseOne.simps [simp del]

section \<open>Properties of the writer\<close>

declare escaped.simps(2) [simp del]

lemma slice_snoc: "start \<le> i \<Longrightarrow> i < length s \<Longrightarrow> slice s start (Suc i) = slice s start i @ [s ! i]"
  by (simp add: slice_def Suc_diff_le take_Suc_conv_app_nth)

lemma slice_app:
  assumes "start \<le> i" and "i + n \<le> length s"
  shows "slice s start (i + n) = slice s start i @ take n (drop i s)"
proof -
  have "i + n - start = (i - start) + n" using assms by simp
  moreover have "drop (i - start) (drop start s) = drop i s" using assms by simp
  ultimately show ?thesis
    by (simp add: slice_def take_add)
qed

lemma slice_end: "slice s start (length s) = drop start s"
  by (simp add: slice_def)

lemma escaped_ascii:
  "xs \<noteq> [] \<Longrightarrow> byte (hd xs) < 0x80 \<Longrightarrow> escaped xs = escape_unit (hd xs) @ escaped (tl xs)"
  by (cases xs) (simp_all add: escaped.simps(2))

lemma escaped_bad:
  "xs \<noteq> [] \<Longrightarrow> \<not> byte (hd xs) < 0x80 \<Longrightarrow> DecodeRuneInString xs = (RuneError, 1) \<Longrightarrow>
   escaped xs = badUnicode @ escaped (tl xs)"
  by (cases xs) (simp_all add: escaped.simps(2) badUnicode_def)

lemma escaped_good:
  "xs \<noteq> [] \<Longrightarrow> \<not> byte (hd xs) < 0x80 \<Longrightarrow> DecodeRuneInString xs \<noteq> (RuneError, 1) \<Longrightarrow>
   escaped xs = take (snd (DecodeRuneInString xs)) xs @ escaped (drop (snd (DecodeRuneInString xs)) xs)"
  by (cases xs) (simp_all add: escaped.simps(2))

lemma escaped_drop_ascii:
  "i < length s \<Longrightarrow> byte (s ! i) < 0x80 \<Longrightarrow>
   escaped (drop i s) = escape_unit (s ! i) @ escaped (drop (Suc i) s)"
  using escaped_ascii [of "drop i s"] by (simp add: hd_drop_conv_nth drop_Suc tl_drop)

lemma escaped_drop_bad:
  "i < length s \<Longrightarrow> \<not> byte (s ! i) < 0x80 \<Longrightarrow> DecodeRuneInString (drop i s) = (RuneError, 1) \<Longrightarrow>
   escaped (drop i s) = badUnicode @ escaped (drop (Suc i) s)"
  using escaped_bad [of "drop i s"] by (simp add: hd_drop_conv_nth drop_Suc tl_drop)

lemma escaped_drop_good:
  "i < length s \<Longrightarrow> \<not> byte (s ! i) < 0x80 \<Longrightarrow> DecodeRuneInString (drop i s) \<noteq> (RuneError, 1) \<Longrightarrow>
   escaped (drop i s) = take (snd (DecodeRuneInString (drop i s))) (drop i s)
       @ escaped (drop (i + snd (DecodeRuneInString (drop i s))) s)"
  using escaped_good [of "drop i s"] by (simp add: hd_drop_conv_nth add.commute)

lemma escape_unit_safe: "safeSet (byte c) \<Longrightarrow> escape_unit c = [c]"
  by (auto simp add: escape_unit_def safeSet_def)

lemma byte_eq_iff: "byte c = byte d \<longleftrightarrow> c = d"
  by (rule of_char_eq_iff)

lemma unsafe_cases:
  assumes "byte c < 0x80" and "\<not> safeSet (byte c)"
  shows "byte c < 0x20 \<or> c = CHR 0x22 \<or> c = CHR 0x5C"
proof -
  have "byte c < 0x20 \<or> byte c = byte (CHR 0x22) \<or> byte c = byte (CHR 0x5C)"
    using assms by (simp add: safeSet_def) arith
  then show ?thesis by (simp only: byte_eq_iff)
qed

lemma escape_byte_unit:
  assumes "byte c < 0x80" and "\<not> safeSet (byte c)"
  shows "escape_byte c jw = jw\<lparr>w := w jw @ escape_unit c\<rparr>"
  using unsafe_cases [OF assms]
  by (auto simp add: escape_byte_def escape_unit_def WriteByte_def WriteString_def
      backslash_def dquote_def escapedNL_def escapedCR_def escapedTab_def escapedUnicode_def hex_def)

lemma flush_w: "w (flush s start i jw) = w jw @ slice s start i"
  by (simp add: flush_def WriteString_def slice_def)

lemma flush_flags: "comma (flush s start i jw) = comma jw" "inObject (flush s start i jw) = inObject jw"
  by (simp_all add: flush_def WriteString_def)

lemma String_loop_escaped:
  "start \<le> i \<Longrightarrow> i \<le> length s \<Longrightarrow> String_loop s start i jw = (st, jw') \<Longrightarrow>
     w jw' @ drop st s = w jw @ slice s start i @ escaped (drop i s)
     \<and> comma jw' = comma jw \<and> inObject jw' = inObject jw"
proof (induction s start i jw rule: String_loop.induct)
  case (1 s start i jw)
  show ?case
  proof (cases "i < length s")
    case False
    then have "String_loop s start i jw = (start, jw)"
      by (simp add: String_loop.simps [of s start i jw])
    moreover from False "1.prems" have "i = length s" by simp
    ultimately show ?thesis
      using "1.prems" by (simp add: slice_end)
  next
    case True
    note lt = True
    show ?thesis
    proof (cases "byte (s ! i) < RuneSelf")
      case True
      note ascii = True
      then have ascii': "byte (s ! i) < 0x80" by (simp add: RuneSelf_def)
      show ?thesis
      proof (cases "safeSet (byte (s ! i))")
        case True
        with lt ascii "1.prems" have "String_loop s start (i + 1) jw = (st, jw')"
          by (simp add: String_loop.simps [of s start i jw])
        with "1.IH"(1) [OF lt ascii True] "1.prems" lt
        have "w jw' @ drop st s = w jw @ slice s start (i + 1) @ escaped (drop (i + 1) s)
              \<and> comma jw' = comma jw \<and> inObject jw' = inObject jw"
          by simp
        then show ?thesis
          using lt "1.prems" ascii' True
          by (simp add: slice_snoc escaped_drop_ascii escape_unit_safe)
      next
        case False
        with lt ascii "1.prems"
        have "String_loop s (i + 1) (i + 1) (escape_byte (s ! i) (flush s start i jw)) = (st, jw')"
          by (simp add: String_loop.simps [of s start i jw])
        with "1.IH"(2) [OF lt ascii False] lt
        have "w jw' @ drop st s = w (escape_byte (s ! i) (flush s start i jw))
                @ slice s (i + 1) (i + 1) @ escaped (drop (i + 1) s)
              \<and> comma jw' = comma (escape_byte (s ! i) (flush s start i jw))
              \<and> inObject jw' = inObject (escape_byte (s ! i) (flush s start i jw))"
          by simp
        then show ?thesis
          using lt ascii' False
          by (simp add: escape_byte_unit flush_w flush_flags escaped_drop_ascii slice_def)
      qed
    next
      case False
      note multi = False
      then have multi': "\<not> byte (s ! i) < 0x80" by (simp add: RuneSelf_def)
      let ?d = "DecodeRuneInString (drop i s)"
      have sz: "1 \<le> snd ?d" "i + snd ?d \<le> length s"
        using lt DecodeRuneInString_size [of "drop i s"] DecodeRuneInString_le [of "drop i s"]
        by simp_all
      show ?thesis
      proof (cases "fst ?d = RuneError \<and> snd ?d = 1")
        case True
        then have bad: "?d = (RuneError, 1)" by (simp add: prod_eq_iff)
        have "String_loop s start i jw =
           String_loop s (i + snd ?d) (i + snd ?d) (WriteString badUnicode (flush s start i jw))"
          using lt multi True by (subst String_loop.simps) simp
        with "1.prems"
        have "String_loop s (i + snd ?d) (i + snd ?d) (WriteString badUnicode (flush s start i jw))
                = (st, jw')"
          by simp
        with "1.IH"(3) [OF lt multi True] sz
        have "w jw' @ drop st s = w (WriteString badUnicode (flush s start i jw))
                @ slice s (i + snd ?d) (i + snd ?d) @ escaped (drop (i + snd ?d) s)
              \<and> comma jw' = comma (WriteString badUnicode (flush s start i jw))
              \<and> inObject jw' = inObject (WriteString badUnicode (flush s start i jw))"
          by simp
        then show ?thesis
          using lt multi' bad
          by (simp add: WriteString_def flush_w flush_flags escaped_drop_bad slice_def)
      next
        case False
        then have good: "?d \<noteq> (RuneError, 1)" by (auto simp add: prod_eq_iff)
        have "String_loop s start i jw = String_loop s start (i + snd ?d) jw"
          by (simp only: String_loop.simps [of s start i jw] lt multi False if_True if_False)
        with "1.prems"
        have "String_loop s start (i + snd ?d) jw = (st, jw')"
          by simp
        with "1.IH"(4) [OF lt multi False] sz "1.prems"
        have "w jw' @ drop st s = w jw @ slice s start (i + snd ?d) @ escaped (drop (i + snd ?d) s)
              \<and> comma jw' = comma jw \<and> inObject jw' = inObject jw"
          by simp
        then show ?thesis
          using lt multi' good sz "1.prems"
          by (simp add: slice_app escaped_drop_good)
      qed
    qed
  qed
qed


lemma String_loop_final:
  assumes "String_loop s 0 0 jw = (st, jw')"
  shows "w (if st < length s then WriteString (drop st s) jw' else jw') = w jw @ escaped s"
    and "comma jw' = comma jw" and "inObject jw' = inObject jw"
proof -
  have inv: "w jw' @ drop st s = w jw @ slice s 0 0 @ escaped (drop 0 s)
     \<and> comma jw' = comma jw \<and> inObject jw' = inObject jw"
    using assms by (intro String_loop_escaped) simp_all
  then show "w (if st < length s then WriteString (drop st s) jw' else jw') = w jw @ escaped s"
    by (auto simp add: WriteString_def slice_def not_less)
  from inv show "comma jw' = comma jw" and "inObject jw' = inObject jw" by simp_all
qed

lemma writer_String_ok:
  assumes "\<not> inObject jw"
  shows "writer_String s jw =
     Inr \<lparr>w = w (sep jw) @ [dquote] @ escaped s @ [dquote], comma = True, inObject = False\<rparr>"
proof -
  let ?jw1 = "WriteByte dquote ((sep jw)\<lparr>comma := True\<rparr>)"
  obtain st jw2 where loop: "String_loop s 0 0 ?jw1 = (st, jw2)"
    by (cases "String_loop s 0 0 ?jw1")
  let ?jw3 = "if st < length s then WriteString (drop st s) jw2 else jw2"
  have w3: "w ?jw3 = w ?jw1 @ escaped s"
    by (rule String_loop_final(1) [OF loop])
  have c3: "comma ?jw3 = True"
    using String_loop_final(2) [OF loop] by (simp add: WriteString_def WriteByte_def)
  have o3: "inObject ?jw3 = False"
    using String_loop_final(3) [OF loop] assms
    by (simp add: WriteString_def WriteByte_def sep_def)
  have "writer_String s jw = Inr (WriteByte dquote ?jw3)"
    using assms loop by (simp add: writer_String_def)
  moreover have "WriteByte dquote ?jw3 =
      \<lparr>w = w (sep jw) @ [dquote] @ escaped s @ [dquote], comma = True, inObject = False\<rparr>"
    using w3 c3 o3 by (intro writer.equality) (simp_all add: WriteByte_def)
  ultimately show ?thesis by simp
qed

text \<open>
  Claim C4.  \<open>String\<close>, called where a value may stand, writes the pending comma, a double
  quote, the escaping of its argument and a double quote: the bytes it writes between the
  quotes are those of \<open>escaped\<close>, the escaping as the specification words it (safe bytes
  copied, the quote and the backslash behind a backslash, the short escapes of newline,
  carriage return and tab, \<open>\u00XX\<close> in lowercase for the other control bytes, \<open>\ufffd\<close>
  for a byte that starts no well-formed UTF-8 sequence).
\<close>

theorem String_escaping:
  "\<not> inObject jw \<Longrightarrow>
   writer_String s jw =
     Inr \<lparr>w = w jw @ (if comma jw then '','' else []) @ [CHR 0x22] @ escaped s @ [CHR 0x22],
          comma = True, inObject = False\<rparr>"
  by (simp add: writer_String_ok sep_def WriteByte_def comma_byte_def dquote_def)

text \<open>
  The example of the specification: a double quote, a backslash, a newline and the byte
  0x01 are written as \<open>\"\<close>, \<open>\\\<close>, \<open>\n\<close> and \<open>\u0001\<close>.
\<close>

theorem String_escaping_witness:
  "\<not> inObject NewWriter \<and>
   writer_String [CHR 0x22, CHR 0x5C, CHR 0x0A, CHR 0x01] NewWriter =
     Inr \<lparr>w = [CHR 0x22,
               CHR 0x5C, CHR 0x22,
               CHR 0x5C, CHR 0x5C,
               CHR 0x5C, CHR ''n'',
               CHR 0x5C, CHR ''u'', CHR ''0'', CHR ''0'', CHR ''0'', CHR ''1'',
               CHR 0x22],
          comma = True, inObject = False\<rparr>"
  using String_escaping [of NewWriter "[CHR 0x22, CHR 0x5C, CHR 0x0A, CHR 0x01]"]
  by (simp add: NewWriter_def escaped.simps(2) escape_unit_def)

text \<open>
  Claim C8.  Directly inside an open object body (\<open>inObject\<close> set) every call that writes a
  value (\<open>Null\<close>, \<open>Bool\<close>, \<open>Int\<close>, \<open>Float64\<close>, \<open>String\<close>, \<open>Object\<close>, \<open>Array\<close>) panics, and
  anywhere else \<open>Prop\<close> panics; the panic carries the writer unchanged, so nothing of the
  offending call has been written.
\<close>

theorem grammar_violation_panics:
  "(inObject jw \<longrightarrow>
      writer_Null jw = Inl (Panic ''Object can only contain Prop'' jw)
    \<and> writer_Bool b jw = Inl (Panic ''Object can only contain Prop'' jw)
    \<and> writer_Int i jw = Inl (Panic ''Object can only contain Prop'' jw)
    \<and> writer_Float64 fmt_f x jw = Inl (Panic ''Object can only contain Prop'' jw)
    \<and> writer_String s jw = Inl (Panic ''Object can only contain Prop'' jw)
    \<and> writer_Object f jw = Inl (Panic ''Object can only contain Prop'' jw)
    \<and> writer_Array f jw = Inl (Panic ''Object can only contain Prop'' jw))
  \<and> (\<not> inObject jw \<longrightarrow>
      writer_Prop fmt_f name v jw = Inl (Panic ''Prop can only occur within Object'' jw))"
  by (simp add: writer_Null_def writer_Int_def writer_Float64_def writer_Bool_def
      writer_String_def writer_Object_def writer_Array_def writer_Prop_def)

theorem grammar_violation_panics_witness:
  "writer_Int 12 \<lparr>w = ''{'', comma = False, inObject = True\<rparr> =
      Inl (Panic ''Object can only contain Prop'' \<lparr>w = ''{'', comma = False, inObject = True\<rparr>)
   \<and> writer_Prop (\<lambda>x::unit. ''0.000000'') ''id'' (VInt 12) NewWriter =
      Inl (Panic ''Prop can only occur within Object'' NewWriter)"
  using grammar_violation_panics [of "\<lparr>w = ''{'', comma = False, inObject = True\<rparr>" True 12
      "\<lambda>x::unit. ''0.000000''" "()" "[]" Inr "''id''" "VInt 12"]
    grammar_violation_panics [of NewWriter True 12
      "\<lambda>x::unit. ''0.000000''" "()" "[]" Inr "''id''" "VInt 12"]
  by (simp add: NewWriter_def)

text \<open>
  Claim C10.  \<open>Prop(name, f)\<close> inside an object body, with a function \<open>f\<close> that returns with
  the pending-separator flag clear (as it found it: the name and the colon are written and the
  flag cleared before \<open>f\<close> runs), panics with "Prop value function did not write anything".
  A function that makes no Writer call returns the writer it was given, which is the case
  of the witness.
\<close>

theorem Prop_function_must_write:
  assumes "inObject jw"
    and "f \<lparr>w = w jw @ (if comma jw then '','' else []) @ [CHR 0x22] @ escaped name
                  @ [CHR 0x22, CHR '':''],
            comma = False, inObject = False\<rparr> = Inr jw'"
    and "\<not> comma jw'"
  shows "writer_Prop fmt_f name (VFunc f) jw =
           Inl (Panic ''Prop value function did not write anything'' jw')"
proof -
  have "writer_String name (jw\<lparr>inObject := False\<rparr>) =
      Inr \<lparr>w = w jw @ (if comma jw then '','' else []) @ [CHR 0x22] @ escaped name @ [CHR 0x22],
           comma = True, inObject = False\<rparr>"
    using writer_String_ok [of "jw\<lparr>inObject := False\<rparr>" name]
    by (simp add: sep_def WriteByte_def comma_byte_def dquote_def)
  then show ?thesis
    using assms by (simp add: writer_Prop_def WriteByte_def colon_def)
qed

theorem Prop_function_must_write_witness:
  "inObject \<lparr>w = ''{'', comma = False, inObject = True\<rparr>
   \<and> writer_Prop (\<lambda>x::unit. ''0.000000'') ''id'' (VFunc Inr)
        \<lparr>w = ''{'', comma = False, inObject = True\<rparr> =
      Inl (Panic ''Prop value function did not write anything''
             \<lparr>w = [CHR ''{'', CHR 0x22, CHR ''i'', CHR ''d'', CHR 0x22, CHR '':''],
              comma = False, inObject = False\<rparr>)"
  using Prop_function_must_write [of "\<lparr>w = ''{'', comma = False, inObject = True\<rparr>" Inr "''id''"
      "\<lparr>w = [CHR ''{'', CHR 0x22, CHR ''i'', CHR ''d'', CHR 0x22, CHR '':''],
              comma = False, inObject = False\<rparr>" "\<lambda>x::unit. ''0.000000''"]
  by (simp add: escaped.simps(2) escape_unit_def)

section \<open>Properties of the decoders\<close>

subsection \<open>Numbers\<close>

text \<open>
  Claim C2.  \<open>Reader.parseNumber\<close>, once the text \<open>num\<close> of the number is accumulated with
  no error and \<open>Ignore\<close> unset: with an \<open>Int\<close> handler and a text that \<open>Atoi\<close> converts, the
  result is that of the \<open>Int\<close> handler called on the integer and nothing else; otherwise,
  with a \<open>Float\<close> handler, it is that of the \<open>Float\<close> handler called on what \<open>ParseFloat\<close>
  returns, or "invalid JSON number" is raised when \<open>ParseFloat\<close> fails; with an \<open>Int\<close>
  handler, a text that is no integer and no \<open>Float\<close> handler, "JSON number is not an
  integer" is raised; with neither handler, "unexpected number in JSON".
\<close>

theorem number_dispatch:
  assumes "Reader_parseNumber_loop [] h = (num, h1)" and "err h1 = None" and "\<not> Ignore handlers"
  shows "(rInt handlers = Some f \<and> Atoi num = Some i \<longrightarrow>
            Reader_parseNumber L handlers h = f i h1)
       \<and> ((rInt handlers = None \<or> Atoi num = None) \<and> rFloat handlers = Some g
            \<and> ParseFloat L num = Some x \<longrightarrow>
            Reader_parseNumber L handlers h = g x h1)
       \<and> ((rInt handlers = None \<or> Atoi num = None) \<and> rFloat handlers = Some g
            \<and> ParseFloat L num = None \<longrightarrow>
            Reader_parseNumber L handlers h =
              Some (h1\<lparr>err := Some (Errorf ''invalid JSON number'' (line h1) (col h1))\<rparr>))
       \<and> (rInt handlers = Some f \<and> Atoi num = None \<and> rFloat handlers = None \<longrightarrow>
            Reader_parseNumber L handlers h =
              Some (h1\<lparr>err := Some (Errorf ''JSON number is not an integer'' (line h1) (col h1))\<rparr>))
       \<and> (rInt handlers = None \<and> rFloat handlers = None \<longrightarrow>
            Reader_parseNumber L handlers h =
              Some (h1\<lparr>err := Some (Errorf ''unexpected number in JSON'' (line h1) (col h1))\<rparr>))"
  using assms by (auto simp add: Reader_parseNumber_def Raise_def Let_def split: option.splits)

lemmas eval_rd = readRune_def ReadRune_def UnreadRune_def unreadRune_def NewReader_def
  NewReader_bufio_def DecodeRuneInString.simps RuneSelf_def runes_of_def char_of_eq_iff

lemma loop_42: "Reader_parseNumber_loop [] (NewReader ''42'' u) =
    (''42'', \<lparr>rdr = \<lparr>buf = ''42'', pos = 2, lastByte = True, lastRuneSize = -1, rderr = EOF\<rparr>,
         line = 1, col = 3, err = None, user = u\<rparr>)"
  by (simp add: Reader_parseNumber_loop.simps eval_rd)

lemma loop_425: "Reader_parseNumber_loop [] (NewReader ''42.5'' u) =
    (''42.5'', \<lparr>rdr = \<lparr>buf = ''42.5'', pos = 4, lastByte = True, lastRuneSize = -1, rderr = EOF\<rparr>,
         line = 1, col = 5, err = None, user = u\<rparr>)"
  by (simp add: Reader_parseNumber_loop.simps eval_rd)

lemma Atoi_42: "Atoi ''42'' = Some 42" "Atoi ''42.5'' = None"
  by (simp_all add: Atoi_def ParseInt_def digitVal_def)

text \<open>
  With both handlers registered, \<open>42\<close> calls \<open>Int(42)\<close> only and \<open>42.5\<close> calls
  \<open>Float(42.5)\<close> only.
\<close>

theorem number_dispatch_witness:
  "Reader_parseNumber lib_example
     (Reader_Handlers False None (Some (\<lambda>i. record_call (Call_Int i))) (Some (\<lambda>x. record_call (Call_Float x)))
        None None None None None)
     (NewReader ''42'' []) =
   Some \<lparr>rdr = \<lparr>buf = ''42'', pos = 2, lastByte = True, lastRuneSize = -1, rderr = EOF\<rparr>,
         line = 1, col = 3, err = None, user = [Call_Int 42]\<rparr>
   \<and> Reader_parseNumber lib_example
     (Reader_Handlers False None (Some (\<lambda>i. record_call (Call_Int i))) (Some (\<lambda>x. record_call (Call_Float x)))
        None None None None None)
     (NewReader ''42.5'' []) =
   Some \<lparr>rdr = \<lparr>buf = ''42.5'', pos = 4, lastByte = True, lastRuneSize = -1, rderr = EOF\<rparr>,
         line = 1, col = 5, err = None, user = [Call_Float 42.5]\<rparr>"
  using number_dispatch [OF loop_42 [of "[]"], where L = lib_example and i = 42
      and handlers = "Reader_Handlers False None (Some (\<lambda>i. record_call (Call_Int i)))
        (Some (\<lambda>x. record_call (Call_Float x))) None None None None None"
      and f = "\<lambda>i. record_call (Call_Int i)"]
    number_dispatch [OF loop_425 [of "[]"], where L = lib_example and x = "42.5"
      and handlers = "Reader_Handlers False None (Some (\<lambda>i. record_call (Call_Int i)))
        (Some (\<lambda>x. record_call (Call_Float x))) None None None None None"
      and g = "\<lambda>x. record_call (Call_Float x)"]
  by (simp add: Atoi_42 lib_example_def record_call_def)

subsection \<open>Strings\<close>

text \<open>
  Claim C5.  \<open>Reader.parseString\<close>, once the loop has left at the closing quote with the
  text \<open>s\<close>: with a \<open>Time\<close> handler and a text that parses as a timestamp, the result is that
  of the \<open>Time\<close> handler and nothing else; otherwise, with a \<open>String\<close> handler, that of the
  \<open>String\<close> handler called on the text; with a \<open>Time\<close> handler only and a text that does
  not parse, "invalid time string in JSON" is raised; with neither handler, "unexpected
  string in JSON".
\<close>

theorem string_dispatch:
  assumes "Reader_parseString_loop [] h = Inr (s, h1)"
  shows "(rTime handlers = Some f \<and> ParseTime L s = Some t \<longrightarrow>
            Reader_parseString L handlers h = f t h1)
       \<and> ((rTime handlers = None \<or> ParseTime L s = None) \<and> rString handlers = Some g \<longrightarrow>
            Reader_parseString L handlers h = g s h1)
       \<and> (rTime handlers = Some f \<and> ParseTime L s = None \<and> rString handlers = None \<longrightarrow>
            Reader_parseString L handlers h = Some (Raise ''invalid time string in JSON'' h1))
       \<and> (rTime handlers = None \<and> rString handlers = None \<longrightarrow>
            Reader_parseString L handlers h = Some (Raise ''unexpected string in JSON'' h1))"
  using assms by (auto simp add: Reader_parseString_def Let_def split: option.splits)

lemma loop_time: "Reader_parseString_loop [] (NewReader (''2020-01-02T03:04:05Z'' @ [CHR 0x22]) u) =
    Inr (''2020-01-02T03:04:05Z'',
       \<lparr>rdr = \<lparr>buf = ''2020-01-02T03:04:05Z'' @ [CHR 0x22], pos = 21, lastByte = True, lastRuneSize = 1, rderr = EOF\<rparr>,
         line = 1, col = 22, err = None, user = u\<rparr>)"
  by (simp add: Reader_parseString_loop.simps eval_rd EncodeRune_def)

lemma loop_abc: "Reader_parseString_loop [] (NewReader (''abc'' @ [CHR 0x22]) u) =
    Inr (''abc'',
       \<lparr>rdr = \<lparr>buf = ''abc'' @ [CHR 0x22], pos = 4, lastByte = True, lastRuneSize = 1, rderr = EOF\<rparr>,
         line = 1, col = 5, err = None, user = u\<rparr>)"
  by (simp add: Reader_parseString_loop.simps eval_rd EncodeRune_def)

theorem string_dispatch_witness:
  "Reader_parseString lib_example
     (Reader_Handlers False None None None (Some (\<lambda>s. record_call (Call_String s)))
        (Some (\<lambda>t. record_call (Call_Time t))) None None None)
     (NewReader (''2020-01-02T03:04:05Z'' @ [CHR 0x22]) []) =
   Some \<lparr>rdr = \<lparr>buf = ''2020-01-02T03:04:05Z'' @ [CHR 0x22], pos = 21, lastByte = True,
                 lastRuneSize = 1, rderr = EOF\<rparr>,
         line = 1, col = 22, err = None, user = [Call_Time 1577934245]\<rparr>
   \<and> Reader_parseString lib_example
     (Reader_Handlers False None None None (Some (\<lambda>s. record_call (Call_String s)))
        (Some (\<lambda>t. record_call (Call_Time t))) None None None)
     (NewReader (''abc'' @ [CHR 0x22]) []) =
   Some \<lparr>rdr = \<lparr>buf = ''abc'' @ [CHR 0x22], pos = 4, lastByte = True, lastRuneSize = 1, rderr = EOF\<rparr>,
         line = 1, col = 5, err = None, user = [Call_String ''abc'']\<rparr>
   \<and> Reader_parseString lib_example
     (Reader_Handlers False None None None None
        (Some (\<lambda>t. record_call (Call_Time t))) None None None)
     (NewReader (''abc'' @ [CHR 0x22]) []) =
   Some \<lparr>rdr = \<lparr>buf = ''abc'' @ [CHR 0x22], pos = 4, lastByte = True, lastRuneSize = 1, rderr = EOF\<rparr>,
         line = 1, col = 5, err = Some (Errorf ''invalid time string in JSON'' 1 5), user = []\<rparr>"
  using string_dispatch [OF loop_time [of "[]"], where L = lib_example and t = 1577934245
      and handlers = "Reader_Handlers False None None None (Some (\<lambda>s. record_call (Call_String s)))
        (Some (\<lambda>t. record_call (Call_Time t))) None None None"
      and f = "\<lambda>t. record_call (Call_Time t)"]
    string_dispatch [OF loop_abc [of "[]"], where L = lib_example
      and handlers = "Reader_Handlers False None None None (Some (\<lambda>s. record_call (Call_String s)))
        (Some (\<lambda>t. record_call (Call_Time t))) None None None"
      and g = "\<lambda>s. record_call (Call_String s)"]
    string_dispatch [OF loop_abc [of "[]"], where L = lib_example
      and handlers = "Reader_Handlers False None None None None
        (Some (\<lambda>t. record_call (Call_Time t))) None None None"
      and f = "\<lambda>t. record_call (Call_Time t)"]
  by (simp add: lib_example_def record_call_def Raise_def)


subsection \<open>The top-level call\<close>











subsection \<open>The first-error slot of the Reader\<close>




subsection \<open>Ignoring a value\<close>

text \<open>
  Claim C1 fails on the code.  \<open>Reader.skipWhitespace\<close> reads on over every rune that is
  not white space, so \<open>Read\<close> with the \<open>Ignore\<close> flag set runs to the end of the stream
  \<open>"abc"\<close> (or \<open>null\<close>) and returns \<open>io.EOF\<close>; and \<open>Reader.parseString\<close>, unlike
  \<open>parseNumber\<close> and \<open>parseKeyword\<close>, does not look at \<open>Ignore\<close>: called on the text of the
  string it raises "unexpected string in JSON".
\<close>

theorem ignore_fails:
  "map_option fst (Reader_Read n L IgnoreHandler (NewReader [CHR 0x22, CHR ''a'', CHR ''b'', CHR ''c'', CHR 0x22] u))
     = Some (Some EOF)
   \<and> map_option err (Reader_parseString L IgnoreHandler (NewReader [CHR ''a'', CHR ''b'', CHR ''c'', CHR 0x22] u))
     = Some (Some (Errorf ''unexpected string in JSON'' 1 5))
   \<and> map_option fst (Reader_Read n L IgnoreHandler (NewReader ''null'' u)) = Some (Some EOF)"
  by (simp add: Reader_Read_def Reader_parseOne.simps Reader_skipWhitespace.simps readRune_def
      ReadRune_def NewReader_def NewReader_bufio_def DecodeRuneInString.simps RuneSelf_def
      Reader_parseString_def Reader_parseString_loop.simps IgnoreHandler_def Raise_def EncodeRune_def)


subsection \<open>Escapes in strings\<close>
















lemmas eval_string = parseString_loop.simps ReadRune_def Read_def NewReader_bufio_def
  DecodeRuneInString.simps RuneSelf_def EncodeRune_def ParseInt_def digitVal_def char_of_eq_iff



text \<open>
  The four bytes go to \<open>strconv.ParseInt\<close>, which takes a sign: \<open>+041\<close> behind \<open>\u\<close> is read
  as the letter A.
\<close>

lemma unicode_escape_sign:
  "outcome (parseString_loop []
      (NewReader_bufio [CHR 0x5C, CHR ''u'', CHR ''+'', CHR ''0'', CHR ''4'', CHR ''1'', CHR 0x22]))
     = Inr ''A''"
  by (simp add: outcome_def eval_string)

subsection \<open>Writing a value and reading it back\<close>







lemma byte_less_256: "byte c < 256"
  using of_char_mod_256 [of c, where 'a = nat]
  by (metis mod_less_divisor zero_less_numeral)
















































text \<open>
  What \<open>%f\<close> prints for a value that is not a number does not start a JSON value, and
  \<open>Reader.Read\<close> reads nothing back: \<open>Reader.skipWhitespace\<close> runs to the end of the stream.
\<close>

lemma not_a_number_is_no_value:
  "decode n L handlers (Inr \<lparr>w = ''NaN'', comma = True, inObject = False\<rparr>)
     = Some (Some (ErrNew ''JSON syntax error''), [])"
  by (simp add: decode_def verdict_def Parse_def parseOne.simps skipWhitespace.simps ReadRune_def
      UnreadRune_def NewReader_bufio_def DecodeRuneInString.simps RuneSelf_def fail_def)

lemma Reader_reads_nothing_back:
  "map_option fst (Reader_Read n L (NullHandler f) (NewReader ''null'' u)) = Some (Some EOF)
   \<and> map_option fst (Reader_Read n L (IntHandler g) (NewReader ''-120'' u)) = Some (Some EOF)"
  by (simp add: Reader_Read_def Reader_parseOne.simps Reader_skipWhitespace.simps readRune_def
      ReadRune_def NewReader_def NewReader_bufio_def DecodeRuneInString.simps RuneSelf_def
      NullHandler_def IntHandler_def)

end
